theory Spec2Isabelle
  imports Complex_Main "HOL-Library.Signed_Division"
begin

section \<open>Dates\<close>

text \<open>
  A JavaScript \<open>Date\<close> is its time value: the milliseconds since the epoch, an integer.
  The services read dates through \<open>getTime\<close>, through comparison and through the
  \<open>date-fns\<close> helpers below. \<open>date-fns\<close> works on the local wall clock; the model is a
  clock without daylight-saving shifts, on which a calendar day is 86400000 ms and the
  days are the multiples of it.
\<close>

type_synonym Date = int

definition msPerDay :: int where
  "msPerDay = 24 * 60 * 60 * 1000"

text \<open>\<open>addDays(date, n)\<close> and \<open>subDays(date, n)\<close>: the same time of day, n days later or earlier.\<close>

definition addDays :: "Date \<Rightarrow> int \<Rightarrow> Date" where
  "addDays d n = d + n * msPerDay"

definition subDays :: "Date \<Rightarrow> int \<Rightarrow> Date" where
  "subDays d n = d - n * msPerDay"

text \<open>
  \<open>differenceInDays(left, right)\<close>: the number of full days between the two dates,
  rounded towards zero.
\<close>

definition differenceInDays :: "Date \<Rightarrow> Date \<Rightarrow> int" where
  "differenceInDays dateLeft dateRight = (dateLeft - dateRight) sdiv msPerDay"

definition isAfter :: "Date \<Rightarrow> Date \<Rightarrow> bool" where
  "isAfter d dateToCompare = (d > dateToCompare)"

text \<open>\<open>isSameDay\<close>: both dates lie in the same calendar day.\<close>

definition isSameDay :: "Date \<Rightarrow> Date \<Rightarrow> bool" where
  "isSameDay dateLeft dateRight = (dateLeft div msPerDay = dateRight div msPerDay)"

text \<open>
  Calendar dates are written through the day number of the proleptic Gregorian calendar
  (day 0 is 1970-01-01); \<open>calendarDate y m d\<close> is midnight of that day.
\<close>

definition daysFromCivil :: "int \<Rightarrow> int \<Rightarrow> int \<Rightarrow> int" where
  "daysFromCivil y m d =
     (let y' = (if m \<le> 2 then y - 1 else y);
          era = y' div 400;
          yoe = y' - era * 400;
          doy = (153 * (if m > 2 then m - 3 else m + 9) + 2) div 5 + d - 1;
          doe = yoe * 365 + yoe div 4 - yoe div 100 + doy
      in era * 146097 + doe - 719468)"

definition calendarDate :: "int \<Rightarrow> int \<Rightarrow> int \<Rightarrow> Date" where
  "calendarDate y m d = daysFromCivil y m d * msPerDay"

text \<open>\<open>Math.round\<close> on a finite number: the nearest integer, a tie going up.\<close>

definition Math_round :: "real \<Rightarrow> int" where
  "Math_round x = \<lfloor>x + 1 / 2\<rfloor>"


section \<open>JavaScript numbers\<close>

text \<open>
  The prediction services compute with JavaScript numbers. A finite number is modelled by
  the real number it stands for; the two infinities and \<open>NaN\<close> are values of their own,
  so that a division by zero and an average over no element are what the program gets.
  The rounding of doubles and the sign of zero are not modelled: a zero is the positive
  zero.
\<close>

datatype jsnum = Num real | PInf | NInf | NaN

fun jadd :: "jsnum \<Rightarrow> jsnum \<Rightarrow> jsnum" where
  "jadd NaN _ = NaN"
| "jadd _ NaN = NaN"
| "jadd (Num a) (Num b) = Num (a + b)"
| "jadd PInf NInf = NaN"
| "jadd NInf PInf = NaN"
| "jadd PInf _ = PInf"
| "jadd _ PInf = PInf"
| "jadd NInf _ = NInf"
| "jadd _ NInf = NInf"

fun jneg :: "jsnum \<Rightarrow> jsnum" where
  "jneg (Num a) = Num (- a)"
| "jneg PInf = NInf"
| "jneg NInf = PInf"
| "jneg NaN = NaN"

definition jsub :: "jsnum \<Rightarrow> jsnum \<Rightarrow> jsnum" where
  "jsub a b = jadd a (jneg b)"

fun jmul :: "jsnum \<Rightarrow> jsnum \<Rightarrow> jsnum" where
  "jmul NaN _ = NaN"
| "jmul _ NaN = NaN"
| "jmul (Num a) (Num b) = Num (a * b)"
| "jmul (Num a) PInf = (if a = 0 then NaN else if a > 0 then PInf else NInf)"
| "jmul (Num a) NInf = (if a = 0 then NaN else if a > 0 then NInf else PInf)"
| "jmul PInf (Num b) = (if b = 0 then NaN else if b > 0 then PInf else NInf)"
| "jmul NInf (Num b) = (if b = 0 then NaN else if b > 0 then NInf else PInf)"
| "jmul PInf PInf = PInf"
| "jmul PInf NInf = NInf"
| "jmul NInf PInf = NInf"
| "jmul NInf NInf = PInf"

fun jdiv :: "jsnum \<Rightarrow> jsnum \<Rightarrow> jsnum" where
  "jdiv NaN _ = NaN"
| "jdiv _ NaN = NaN"
| "jdiv (Num a) (Num b) =
     (if b = 0 then (if a = 0 then NaN else if a > 0 then PInf else NInf) else Num (a / b))"
| "jdiv (Num a) PInf = Num 0"
| "jdiv (Num a) NInf = Num 0"
| "jdiv PInf (Num b) = (if b \<ge> 0 then PInf else NInf)"
| "jdiv NInf (Num b) = (if b \<ge> 0 then NInf else PInf)"
| "jdiv _ _ = NaN"

fun jle :: "jsnum \<Rightarrow> jsnum \<Rightarrow> bool" where
  "jle NaN _ = False"
| "jle _ NaN = False"
| "jle (Num a) (Num b) = (a \<le> b)"
| "jle NInf _ = True"
| "jle _ PInf = True"
| "jle _ _ = False"

fun jlt :: "jsnum \<Rightarrow> jsnum \<Rightarrow> bool" where
  "jlt NaN _ = False"
| "jlt _ NaN = False"
| "jlt (Num a) (Num b) = (a < b)"
| "jlt PInf _ = False"
| "jlt _ NInf = False"
| "jlt _ _ = True"

definition Math_max :: "jsnum \<Rightarrow> jsnum \<Rightarrow> jsnum" where
  "Math_max a b = (if a = NaN \<or> b = NaN then NaN else if jlt a b then b else a)"

definition Math_min :: "jsnum \<Rightarrow> jsnum \<Rightarrow> jsnum" where
  "Math_min a b = (if a = NaN \<or> b = NaN then NaN else if jlt b a then b else a)"

fun Math_sqrt :: "jsnum \<Rightarrow> jsnum" where
  "Math_sqrt (Num a) = (if a < 0 then NaN else Num (sqrt a))"
| "Math_sqrt PInf = PInf"
| "Math_sqrt NInf = NaN"
| "Math_sqrt NaN = NaN"

text \<open>\<open>Math.round\<close> on a number that may be infinite or \<open>NaN\<close>.\<close>

fun Math_roundN :: "jsnum \<Rightarrow> jsnum" where
  "Math_roundN (Num a) = Num (of_int (Math_round a))"
| "Math_roundN x = x"

definition Math_pow :: "real \<Rightarrow> nat \<Rightarrow> jsnum" where
  "Math_pow b i = Num (b ^ i)"

text \<open>The truthiness of a number: every number but zero and \<open>NaN\<close>.\<close>

fun truthy :: "jsnum \<Rightarrow> bool" where
  "truthy (Num a) = (a \<noteq> 0)"
| "truthy NaN = False"
| "truthy _ = True"


section \<open>CycleCalculationService\<close>

datatype Flow = light | medium | heavy

record PeriodLog =
  log_id :: "string option"
  startDate :: Date
  endDate :: Date
  flow :: Flow

datatype DayPhase = period | fertile | ovulation | unknown

datatype Intensity = i_light | i_medium | i_heavy | i_none

record CycleDay =
  date :: Date
  phase :: DayPhase
  intensity :: Intensity
  prediction :: "bool option"

definition DEFAULT_CYCLE_LENGTH :: int where
  "DEFAULT_CYCLE_LENGTH = 28"

definition DEFAULT_PERIOD_LENGTH :: int where
  "DEFAULT_PERIOD_LENGTH = 6"

text \<open>
  The methods read \<open>this.periodLogs\<close>; here they take the content of that array as
  their first argument.

  \<open>calculateAverageCycleLength\<close>: the loop over \<open>i\<close> and \<open>i + 1\<close> walks the adjacent
  pairs of the array and carries \<open>(totalDays, validCycles)\<close>.
\<close>

fun cycleLengthLoop :: "PeriodLog list \<Rightarrow> int \<times> int \<Rightarrow> int \<times> int" where
  "cycleLengthLoop (current # next # rest) (totalDays, validCycles) =
     (let cycleDays = differenceInDays (startDate current) (startDate next)
      in cycleLengthLoop (next # rest)
           (if cycleDays \<ge> 21 \<and> cycleDays \<le> 35
            then (totalDays + cycleDays, validCycles + 1)
            else (totalDays, validCycles)))"
| "cycleLengthLoop [a] acc = acc"
| "cycleLengthLoop [] acc = acc"

definition calculateAverageCycleLength :: "PeriodLog list \<Rightarrow> int" where
  "calculateAverageCycleLength periodLogs =
     (if length periodLogs < 2 then DEFAULT_CYCLE_LENGTH
      else (case cycleLengthLoop periodLogs (0, 0) of
              (totalDays, validCycles) \<Rightarrow>
                if validCycles > 0
                then Math_round (real_of_int totalDays / real_of_int validCycles)
                else DEFAULT_CYCLE_LENGTH))"

definition periodLengthStep :: "int \<times> int \<Rightarrow> PeriodLog \<Rightarrow> int \<times> int" where
  "periodLengthStep acc entry =
     (case acc of (totalDays, validPeriods) \<Rightarrow>
        (let periodDays = differenceInDays (endDate entry) (startDate entry) + 1
         in if periodDays \<ge> 3 \<and> periodDays \<le> 10
            then (totalDays + periodDays, validPeriods + 1)
            else (totalDays, validPeriods)))"

definition calculateAveragePeriodLength :: "PeriodLog list \<Rightarrow> int" where
  "calculateAveragePeriodLength periodLogs =
     (if length periodLogs = 0 then DEFAULT_PERIOD_LENGTH
      else (case foldl periodLengthStep (0, 0) periodLogs of
              (totalDays, validPeriods) \<Rightarrow>
                if validPeriods > 0
                then Math_round (real_of_int totalDays / real_of_int validPeriods)
                else DEFAULT_PERIOD_LENGTH))"

text \<open>
  \<open>predictNextCycle(fromDate)\<close>. The logged periods come first: for each log one
  \<open>CycleDay\<close> per full day from its start, the loop index running over \<open>0 \<le> i < days\<close>.
\<close>

definition flowOfDay :: "int \<Rightarrow> Intensity" where
  "flowOfDay i = (if i = 0 then i_heavy else if i < 2 then i_medium else i_light)"

definition pastPeriodDays :: "PeriodLog \<Rightarrow> CycleDay list" where
  "pastPeriodDays entry =
     (let days = differenceInDays (endDate entry) (startDate entry) + 1
      in map (\<lambda>i. \<lparr> date = addDays (startDate entry) i, phase = period,
                     intensity = flowOfDay i, prediction = Some False \<rparr>)
             [0..days - 1])"

text \<open>The anchor of the projection, \<open>nextPeriodStart\<close>; \<open>%\<close> is the truncating remainder.\<close>

definition nextPeriodStart :: "PeriodLog \<Rightarrow> int \<Rightarrow> Date \<Rightarrow> Date" where
  "nextPeriodStart mostRecentPeriod cycleLength fromDate =
     (if isAfter fromDate (startDate mostRecentPeriod)
      then (let daysSinceLastPeriod = differenceInDays fromDate (startDate mostRecentPeriod);
                daysUntilNextPeriod = cycleLength - (daysSinceLastPeriod smod cycleLength)
            in addDays fromDate daysUntilNextPeriod)
      else startDate mostRecentPeriod)"

text \<open>
  A projected day is pushed only when \<open>cycleDays.some(d => isSameDay(d.date, date))\<close>
  is false.
\<close>

definition pushUnlessPresent :: "CycleDay list \<Rightarrow> CycleDay \<Rightarrow> CycleDay list" where
  "pushUnlessPresent cycleDays entry =
     (if \<not> list_ex (\<lambda>d. isSameDay (date d) (date entry)) cycleDays
      then cycleDays @ [entry]
      else cycleDays)"

definition periodPhase :: "Date \<Rightarrow> int \<Rightarrow> CycleDay list \<Rightarrow> CycleDay list" where
  "periodPhase cycleStartDate periodLength cycleDays =
     foldl (\<lambda>acc day. pushUnlessPresent acc
              \<lparr> date = addDays cycleStartDate day, phase = period,
                intensity = flowOfDay day, prediction = Some True \<rparr>)
           cycleDays [0..periodLength - 1]"

definition fertileWindow :: "Date \<Rightarrow> CycleDay list \<Rightarrow> CycleDay list" where
  "fertileWindow ovulationDay cycleDays =
     foldl (\<lambda>acc day. pushUnlessPresent acc
              \<lparr> date = addDays ovulationDay day,
                phase = (if day = 0 then ovulation else fertile),
                intensity = i_none, prediction = Some True \<rparr>)
           cycleDays [-5..0]"

definition predictCycle :: "Date \<Rightarrow> int \<Rightarrow> int \<Rightarrow> CycleDay list \<Rightarrow> int \<Rightarrow> CycleDay list" where
  "predictCycle nextStart cycleLength periodLength cycleDays cycle =
     (let cycleStartDate = addDays nextStart (cycle * cycleLength);
          withPeriod = periodPhase cycleStartDate periodLength cycleDays;
          nextCycleStart = addDays cycleStartDate cycleLength;
          ovulationDay = subDays nextCycleStart 14
      in fertileWindow ovulationDay withPeriod)"

text \<open>The final \<open>sort\<close> by date is stable, as \<open>sort_key\<close> is.\<close>

definition predictNextCycle :: "PeriodLog list \<Rightarrow> Date \<Rightarrow> CycleDay list" where
  "predictNextCycle periodLogs fromDate =
     (case periodLogs of
        [] \<Rightarrow> []
      | mostRecentPeriod # _ \<Rightarrow>
          (let pastDays = concat (map pastPeriodDays periodLogs);
               cycleLength = calculateAverageCycleLength periodLogs;
               periodLength = calculateAveragePeriodLength periodLogs;
               nextStart = nextPeriodStart mostRecentPeriod cycleLength fromDate;
               cycleDays = foldl (predictCycle nextStart cycleLength periodLength)
                                 pastDays [0, 1, 2]
           in sort_key date cycleDays))"

text \<open>
  The service object. \<open>this.periodLogs\<close> is a reference to an array; the arrays live in
  a store indexed by reference, and \<open>nextRef\<close> is the next reference to hand out.
  \<open>addPeriodLog\<close> pushes onto the internal array and sorts it in place (the sort is
  stable and descending in the start date); \<open>clearLogs\<close> assigns a new empty array;
  \<open>getPeriodLogs\<close> spreads the internal array into a new one and returns its reference.
\<close>

record Service =
  arrays :: "nat \<Rightarrow> PeriodLog list"
  periodLogs :: nat
  nextRef :: nat

definition newService :: Service where
  "newService = \<lparr> arrays = (\<lambda>_. []), periodLogs = 0, nextRef = 1 \<rparr>"

definition internalLogs :: "Service \<Rightarrow> PeriodLog list" where
  "internalLogs s = arrays s (periodLogs s)"

definition sortNewestFirst :: "PeriodLog list \<Rightarrow> PeriodLog list" where
  "sortNewestFirst xs = sort_key (\<lambda>a. - startDate a) xs"

definition addPeriodLog :: "PeriodLog \<Rightarrow> Service \<Rightarrow> Service" where
  "addPeriodLog entry s =
     (let newLog = entry;
          pushed = arrays s (periodLogs s) @ [newLog]
      in s \<lparr> arrays := (arrays s)(periodLogs s := sortNewestFirst pushed) \<rparr>)"

definition clearLogs :: "Service \<Rightarrow> Service" where
  "clearLogs s =
     s \<lparr> arrays := (arrays s)(nextRef s := []),
         periodLogs := nextRef s,
         nextRef := Suc (nextRef s) \<rparr>"

definition getPeriodLogs :: "Service \<Rightarrow> nat \<times> Service" where
  "getPeriodLogs s =
     (nextRef s,
      s \<lparr> arrays := (arrays s)(nextRef s := arrays s (periodLogs s)),
          nextRef := Suc (nextRef s) \<rparr>)"

datatype Call = AddPeriodLog PeriodLog | ClearLogs | GetPeriodLogs

fun call :: "Service \<Rightarrow> Call \<Rightarrow> Service" where
  "call s (AddPeriodLog entry) = addPeriodLog entry s"
| "call s ClearLogs = clearLogs s"
| "call s GetPeriodLogs = snd (getPeriodLogs s)"

definition sortedNewestFirst :: "PeriodLog list \<Rightarrow> bool" where
  "sortedNewestFirst xs = sorted_wrt (\<lambda>a b. startDate a \<ge> startDate b) xs"


section \<open>CyclePredictionService\<close>

text \<open>
  A thrown exception is an error value: \<open>Error msg\<close> for \<open>throw new Error(msg)\<close>,
  \<open>TypeError\<close> for a property read on \<open>undefined\<close>.

  Of a \<open>CycleLog\<close> the services read the start date, whether an end date is set, and
  the length, a number or \<open>null\<close>. The dates of a log are valid dates; a date the
  service computes is a time value that may be \<open>NaN\<close>, the invalid date.
\<close>

datatype error = Error string | TypeError string

record CycleLog =
  cycle_startDate :: Date
  cycle_endDate :: "Date option"
  cycle_length :: "jsnum option"

record CycleAnalysis =
  mean :: jsnum
  standardDeviation :: jsnum
  regularityScore :: jsnum
  isRegular :: bool

definition REGULARITY_THRESHOLD :: jsnum where
  "REGULARITY_THRESHOLD = Num 0.15"

definition MIN_CYCLES_FOR_PREDICTION :: nat where
  "MIN_CYCLES_FOR_PREDICTION = 3"

definition TYPICAL_PHASE_LENGTHS :: "(string \<times> jsnum \<times> jsnum) list" where
  "TYPICAL_PHASE_LENGTHS =
     [(''menstrual'', Num 3, Num 7),
      (''follicular'', Num 7, Num 14),
      (''ovulation'', Num 1, Num 2),
      (''luteal'', Num 12, Num 16)]"

text \<open>
  \<open>analyzeCycles\<close>. The lengths are those of the cycles that pass
  \<open>cycle.endDate && cycle.length\<close>; the two \<open>reduce\<close> calls are left folds from 0.
\<close>

definition lengthOrNone :: "CycleLog \<Rightarrow> jsnum option" where
  "lengthOrNone cycle =
     (case cycle_length cycle of
        None \<Rightarrow> None
      | Some len \<Rightarrow> if cycle_endDate cycle \<noteq> None \<and> truthy len then Some len else None)"

definition cycleLengths :: "CycleLog list \<Rightarrow> jsnum list" where
  "cycleLengths cycles = List.map_filter lengthOrNone cycles"

definition analyzeCycles :: "CycleLog list \<Rightarrow> error + CycleAnalysis" where
  "analyzeCycles cycles =
     (if length cycles < MIN_CYCLES_FOR_PREDICTION
      then Inl (Error ''Not enough cycle data for analysis'')
      else
        (let lengths = cycleLengths cycles;
             mean = jdiv (foldl (\<lambda>sum len. jadd sum len) (Num 0) lengths)
                         (Num (real (length lengths)));
             variance = jdiv (foldl (\<lambda>sum len. let diff = jsub len mean
                                                in jadd sum (jmul diff diff))
                                    (Num 0) lengths)
                             (Num (real (length lengths)));
             standardDeviation = Math_sqrt variance;
             variationCoefficient = jdiv standardDeviation mean;
             regularityScore =
               Math_max (Num 0)
                 (Math_min (Num 100)
                    (jmul (Num 100) (jsub (Num 1) (jdiv variationCoefficient (Num 0.3)))));
             isRegular = jle variationCoefficient REGULARITY_THRESHOLD
         in Inr \<lparr> mean = mean, standardDeviation = standardDeviation,
                  regularityScore = regularityScore, isRegular = isRegular \<rparr>))"

text \<open>
  \<open>new Date(value)\<close> on a number: the time value is clipped, an integer number of
  milliseconds within the range of dates, or \<open>NaN\<close>. \<open>daysToMs\<close> is the product
  \<open>days * 24 * 60 * 60 * 1000\<close>.
\<close>

definition newDate :: "jsnum \<Rightarrow> jsnum" where
  "newDate v =
     (case v of
        Num t \<Rightarrow> if \<bar>t\<bar> > 8640000000000000 then NaN
                 else Num (of_int (if t \<ge> 0 then \<lfloor>t\<rfloor> else \<lceil>t\<rceil>))
      | _ \<Rightarrow> NaN)"

definition daysToMs :: "jsnum \<Rightarrow> jsnum" where
  "daysToMs days = jmul (jmul (jmul (jmul days (Num 24)) (Num 60)) (Num 60)) (Num 1000)"

text \<open>
  \<open>predictCyclePhases\<close>: the phases in the order of \<open>TYPICAL_PHASE_LENGTHS\<close>, each
  with its start and end; the loop carries \<open>currentDate\<close> and the phases so far.
\<close>

definition predictCyclePhases :: "jsnum \<Rightarrow> jsnum \<Rightarrow> (string \<times> jsnum \<times> jsnum) list" where
  "predictCyclePhases cycleStart cycleLength =
     (let totalPhaseLength =
            foldl (\<lambda>sum (name, mn, mx). jadd sum (jdiv (jadd mn mx) (Num 2)))
                  (Num 0) TYPICAL_PHASE_LENGTHS;
          scaleFactor = jdiv cycleLength totalPhaseLength
      in snd (foldl (\<lambda>(currentDate, phases) (name, mn, mx).
                       (let avgLength = jmul (jdiv (jadd mn mx) (Num 2)) scaleFactor;
                            start = newDate currentDate;
                            end' = newDate (jadd currentDate (daysToMs avgLength))
                        in (end', phases @ [(name, start, end')])))
                    (newDate cycleStart, []) TYPICAL_PHASE_LENGTHS))"

definition calculatePredictionConfidence :: "CycleAnalysis \<Rightarrow> nat \<Rightarrow> jsnum" where
  "calculatePredictionConfidence analysis cycleCount =
     (let confidence0 = regularityScore analysis;
          cycleCountFactor =
            Math_min (Num 1)
              (jdiv (jsub (Num (real cycleCount)) (Num (real MIN_CYCLES_FOR_PREDICTION)))
                    (Num 9));
          confidence1 = jmul confidence0 (jadd (Num 0.7) (jmul (Num 0.3) cycleCountFactor));
          variationPenalty =
            Math_max (Num 0)
              (jsub (Num 1) (jdiv (standardDeviation analysis) (mean analysis)));
          confidence2 = jmul confidence1 (jadd (Num 0.8) (jmul (Num 0.2) variationPenalty))
      in Math_roundN (Math_max (Num 0) (Math_min (Num 100) confidence2)))"

text \<open>
  \<open>predictNextCycle(cycles)\<close> of this service, the summary form. \<open>lastUpdated\<close> is
  the clock's \<open>now\<close>, an argument here. \<open>cycle.length || analysis.mean\<close> is
  \<open>lengthOr\<close>.
\<close>

record CyclePrediction =
  nextPeriodStart' :: jsnum
  nextPeriodEnd :: jsnum
  confidence' :: jsnum
  basedOnCycles :: nat
  averageCycleLength :: jsnum
  standardDeviation' :: jsnum
  regularityScore' :: jsnum
  phasesPrediction :: "(string \<times> jsnum \<times> jsnum) list"
  lastUpdated :: Date

definition lengthOr :: "CycleLog \<Rightarrow> jsnum \<Rightarrow> jsnum" where
  "lengthOr cycle fallback =
     (case cycle_length cycle of
        None \<Rightarrow> fallback
      | Some len \<Rightarrow> if truthy len then len else fallback)"

definition predictNextCycle_summary :: "Date \<Rightarrow> CycleLog list \<Rightarrow> error + CyclePrediction" where
  "predictNextCycle_summary now cycles =
     (case analyzeCycles cycles of
        Inl e \<Rightarrow> Inl e
      | Inr analysis \<Rightarrow>
          (case cycles of
             [] \<Rightarrow> Inl (TypeError ''lastCycle is undefined'')
           | lastCycle # _ \<Rightarrow>
               (let recentCycles = take (min 6 (length cycles)) cycles;
                    weights = map (\<lambda>i. Math_pow 0.8 i) [0..<length recentCycles];
                    weightedSum =
                      foldl (\<lambda>sum (cycle, w). jadd sum (jmul (lengthOr cycle (mean analysis)) w))
                            (Num 0) (zip recentCycles weights);
                    totalWeight = foldl (\<lambda>sum w. jadd sum w) (Num 0) weights;
                    predictedLength = jdiv weightedSum totalWeight;
                    nextStart = newDate (jadd (Num (real_of_int (cycle_startDate lastCycle)))
                                              (daysToMs predictedLength));
                    nextEnd = newDate (jadd nextStart (daysToMs (mean analysis)));
                    phasesPrediction = predictCyclePhases nextStart (mean analysis);
                    confidence = calculatePredictionConfidence analysis (length cycles)
                in Inr \<lparr> nextPeriodStart' = nextStart,
                         nextPeriodEnd = nextEnd,
                         confidence' = confidence,
                         basedOnCycles = length cycles,
                         averageCycleLength = mean analysis,
                         standardDeviation' = standardDeviation analysis,
                         regularityScore' = regularityScore analysis,
                         phasesPrediction = phasesPrediction,
                         lastUpdated = now \<rparr>)))"

section \<open>FertilityPredictionService\<close>

text \<open>
  A window's \<open>start\<close>, \<open>end\<close> and \<open>type\<close> are the fields \<open>window_start\<close>,
  \<open>window_end\<close> and \<open>window_type\<close>. \<open>averageOvulationDay\<close> is a whole number of
  days, as \<open>Math.round\<close> leaves it.
\<close>

datatype FertilityType = HIGHLY_FERTILE | FERTILE | LESS_FERTILE | INFERTILE

datatype FertilityPhase = MENSTRUAL | FOLLICULAR | OVULATION | LUTEAL

record FertilityWindow =
  window_start :: Date
  window_end :: Date
  window_type :: FertilityType
  probability :: jsnum

record OvulationPrediction =
  expectedDate :: Date
  confidence :: jsnum
  fertilityWindows :: "FertilityWindow list"

record FertilityStats =
  averageOvulationDay :: int
  cycleRegularity :: jsnum
  confidenceLevel :: jsnum

definition HIGHLY_FERTILE_WINDOW :: int where
  "HIGHLY_FERTILE_WINDOW = 3"

text \<open>\<open>d.setDate(d.getDate() + n)\<close>: the same time of day, n days later.\<close>

definition setDatePlus :: "Date \<Rightarrow> int \<Rightarrow> Date" where
  "setDatePlus d n = d + n * msPerDay"

definition predictNextOvulation :: "CycleLog list \<Rightarrow> FertilityStats \<Rightarrow> error + OvulationPrediction" where
  "predictNextOvulation cycles stats =
     (case cycles of
        [] \<Rightarrow> Inl (TypeError ''lastCycle is undefined'')
      | lastCycle # _ \<Rightarrow>
          (let expectedOvulationDate =
                 setDatePlus (cycle_startDate lastCycle) (averageOvulationDay stats);
               fertilityWindows =
                 [\<lparr> window_start = expectedOvulationDate
                                      - (HIGHLY_FERTILE_WINDOW * 24 * 60 * 60 * 1000),
                    window_end = expectedOvulationDate,
                    window_type = HIGHLY_FERTILE,
                    probability = Num 0.3 \<rparr>,
                  \<lparr> window_start = expectedOvulationDate,
                    window_end = expectedOvulationDate + (2 * 24 * 60 * 60 * 1000),
                    window_type = FERTILE,
                    probability = Num 0.2 \<rparr>,
                  \<lparr> window_start = expectedOvulationDate
                                      - ((HIGHLY_FERTILE_WINDOW + 2) * 24 * 60 * 60 * 1000),
                    window_end = expectedOvulationDate
                                    - (HIGHLY_FERTILE_WINDOW * 24 * 60 * 60 * 1000),
                    window_type = LESS_FERTILE,
                    probability = Num 0.1 \<rparr>]
           in Inr \<lparr> expectedDate = expectedOvulationDate,
                    confidence = confidenceLevel stats,
                    fertilityWindows = fertilityWindows \<rparr>))"

definition determineFertilityPhase :: "Date \<Rightarrow> OvulationPrediction \<Rightarrow> FertilityPhase" where
  "determineFertilityPhase d ovulationPrediction =
     (let daysDiff = Math_round (real_of_int (d - expectedDate ovulationPrediction)
                                  / real_of_int (1000 * 60 * 60 * 24))
      in if daysDiff = 0 then OVULATION
         else if daysDiff < 0 \<and> daysDiff \<ge> -5 then FOLLICULAR
         else if daysDiff > 0 \<and> daysDiff \<le> 14 then LUTEAL
         else FOLLICULAR)"

text \<open>
  \<open>calculateDailyProbability\<close> takes the first window with
  \<open>date >= w.start && date <= w.end\<close>.
\<close>

definition insideWindow :: "Date \<Rightarrow> FertilityWindow \<Rightarrow> bool" where
  "insideWindow d w = (d \<ge> window_start w \<and> d \<le> window_end w)"

definition calculateDailyProbability :: "Date \<Rightarrow> OvulationPrediction \<Rightarrow> jsnum" where
  "calculateDailyProbability d ovulationPrediction =
     (case find (insideWindow d) (fertilityWindows ovulationPrediction) of
        Some w \<Rightarrow> jmul (probability w) (confidence ovulationPrediction)
      | None \<Rightarrow> Num 0)"


section \<open>Notions the statements use\<close>

text \<open>
  The candidate cycle lengths of a log list are the day differences between the start
  dates of adjacent logs; the plausible ones lie in [21, 35].
\<close>

definition cycleCandidates :: "PeriodLog list \<Rightarrow> int list" where
  "cycleCandidates logs =
     map (\<lambda>(current, next). differenceInDays (startDate current) (startDate next))
         (zip logs (tl logs))"

definition plausibleCycle :: "int \<Rightarrow> bool" where
  "plausibleCycle d = (21 \<le> d \<and> d \<le> 35)"

definition survivingCycles :: "PeriodLog list \<Rightarrow> int list" where
  "survivingCycles logs = filter plausibleCycle (cycleCandidates logs)"



definition serviceInv :: "Service \<Rightarrow> bool" where
  "serviceInv s = (periodLogs s < nextRef s \<and> sortedNewestFirst (internalLogs s))"

text \<open>The mean and the standard deviation of a list of numbers, as mathematics has them.\<close>

definition arithmeticMean :: "real list \<Rightarrow> real" where
  "arithmeticMean xs = sum_list xs / real (length xs)"

definition populationStdDev :: "real list \<Rightarrow> real" where
  "populationStdDev xs =
     sqrt (sum_list (map (\<lambda>x. (x - arithmeticMean xs)\<^sup>2) xs) / real (length xs))"

definition regularityFormula :: "real \<Rightarrow> real" where
  "regularityFormula variationCoefficient =
     max 0 (min 100 (100 * (1 - variationCoefficient / 0.3)))"

text \<open>The same formula on JavaScript numbers.\<close>

definition regularityOf :: "jsnum \<Rightarrow> jsnum" where
  "regularityOf variationCoefficient =
     Math_max (Num 0)
       (Math_min (Num 100)
          (jmul (Num 100) (jsub (Num 1) (jdiv variationCoefficient (Num 0.3)))))"

text \<open>The three factors of the confidence.\<close>

definition countBlend :: "nat \<Rightarrow> real" where
  "countBlend n = 0.7 + 0.3 * min 1 ((real n - 3) / 9)"

definition variationFactor :: "jsnum \<Rightarrow> jsnum" where
  "variationFactor ratio =
     jadd (Num 0.8) (jmul (Num 0.2) (Math_max (Num 0) (jsub (Num 1) ratio)))"

definition clampRound :: "jsnum \<Rightarrow> jsnum" where
  "clampRound x = Math_roundN (Math_max (Num 0) (Math_min (Num 100) x))"

text \<open>
  The type of the window \<open>calculateDailyProbability\<close> finds for a date, and the days of
  a projection that fall on the calendar day of a date.
\<close>

definition windowTypeAt :: "Date \<Rightarrow> OvulationPrediction \<Rightarrow> FertilityType option" where
  "windowTypeAt d p = map_option window_type (find (insideWindow d) (fertilityWindows p))"


definition midday :: "Date \<Rightarrow> Date" where
  "midday d = d + 12 * 60 * 60 * 1000"

subsection \<open>Sample inputs\<close>

definition exampleLog :: "Date \<Rightarrow> Date \<Rightarrow> PeriodLog" where
  "exampleLog s e = \<lparr> log_id = None, startDate = s, endDate = e, flow = medium \<rparr>"

text \<open>The two logs 2024-01-01..2024-01-05 and 2024-01-29..2024-02-02, newest first.\<close>

definition scenarioLogs :: "PeriodLog list" where
  "scenarioLogs =
     [exampleLog (calendarDate 2024 1 29) (calendarDate 2024 2 2),
      exampleLog (calendarDate 2024 1 1) (calendarDate 2024 1 5)]"


text \<open>Four logs whose start dates are 60, 29 and 28 days apart, newest first.\<close>

definition outlierLogs :: "PeriodLog list" where
  "outlierLogs =
     [exampleLog (calendarDate 2024 4 27) (calendarDate 2024 5 1),
      exampleLog (calendarDate 2024 2 27) (calendarDate 2024 3 2),
      exampleLog (calendarDate 2024 1 29) (calendarDate 2024 2 2),
      exampleLog (calendarDate 2024 1 1) (calendarDate 2024 1 5)]"

definition sampleCycle :: "Date \<Rightarrow> real \<Rightarrow> CycleLog" where
  "sampleCycle s len = \<lparr> cycle_startDate = s, cycle_endDate = Some (addDays s 5),
                          cycle_length = Some (Num len) \<rparr>"

definition steadyCycles :: "CycleLog list" where
  "steadyCycles =
     [sampleCycle (calendarDate 2024 3 1) 28, sampleCycle (calendarDate 2024 2 2) 28,
      sampleCycle (calendarDate 2024 1 5) 28]"

definition erraticCycles :: "CycleLog list" where
  "erraticCycles =
     [sampleCycle (calendarDate 2024 3 1) 1, sampleCycle (calendarDate 2024 2 27) 3,
      \<lparr> cycle_startDate = calendarDate 2024 2 20, cycle_endDate = None, cycle_length = None \<rparr>]"

definition sampleAnalysis :: CycleAnalysis where
  "sampleAnalysis = \<lparr> mean = Num 28, standardDeviation = Num 1.4, regularityScore = Num 80,
                       isRegular = True \<rparr>"

text \<open>A last cycle starting 2024-03-01 and an average ovulation day of 14: ovulation on 2024-03-15.\<close>

definition marchCycles :: "CycleLog list" where
  "marchCycles = [\<lparr> cycle_startDate = calendarDate 2024 3 1, cycle_endDate = None,
                    cycle_length = None \<rparr>]"

definition marchStats :: FertilityStats where
  "marchStats = \<lparr> averageOvulationDay = 14, cycleRegularity = Num 0.9,
                   confidenceLevel = Num 0.8 \<rparr>"

definition marchWindows :: "FertilityWindow list" where
  "marchWindows =
     [\<lparr> window_start = calendarDate 2024 3 12, window_end = calendarDate 2024 3 15,
        window_type = HIGHLY_FERTILE, probability = Num 0.3 \<rparr>,
      \<lparr> window_start = calendarDate 2024 3 15, window_end = calendarDate 2024 3 17,
        window_type = FERTILE, probability = Num 0.2 \<rparr>,
      \<lparr> window_start = calendarDate 2024 3 10, window_end = calendarDate 2024 3 12,
        window_type = LESS_FERTILE, probability = Num 0.1 \<rparr>]"

definition marchPrediction :: OvulationPrediction where
  "marchPrediction = \<lparr> expectedDate = calendarDate 2024 3 15, confidence = Num 0.8,
                        fertilityWindows = marchWindows \<rparr>"


section \<open>Arithmetic of days\<close>

lemmas date_eval = calendarDate_def daysFromCivil_def msPerDay_def addDays_def subDays_def
  differenceInDays_def isAfter_def isSameDay_def signed_divide_int_def signed_modulo_int_def

lemma msPerDay_pos: "0 < msPerDay"
  by (simp add: msPerDay_def)

lemma less_mult_iff_div_less:
  fixes d k L :: int
  assumes "0 < L"
  shows "(d < k * L) = (d div L < k)"
proof
  have split: "d = d div L * L + d mod L" by simp
  have r: "0 \<le> d mod L" "d mod L < L" using assms by simp_all
  {
    assume lt: "d < k * L"
    show "d div L < k"
    proof (rule ccontr)
      assume "\<not> d div L < k"
      then have "k * L \<le> d div L * L" using assms by (simp add: mult_right_mono)
      also have "\<dots> \<le> d" using split r(1) by linarith
      finally show False using lt by simp
    qed
  }
  {
    assume "d div L < k"
    then have "(d div L + 1) * L \<le> k * L" using assms by (simp add: mult_right_mono)
    moreover have "(d div L + 1) * L = d div L * L + L" by (simp add: distrib_right)
    moreover have "d < d div L * L + L" using split r(2) by linarith
    ultimately show "d < k * L" by linarith
  }
qed

lemma differenceInDays_nonneg:
  "b \<le> a \<Longrightarrow> differenceInDays a b = (a - b) div msPerDay"
  using msPerDay_pos by (simp add: differenceInDays_def signed_divide_int_def sgn_if)

lemma smod_nonneg: "0 \<le> (a::int) \<Longrightarrow> 0 < b \<Longrightarrow> a smod b = a mod b"
  by (simp add: signed_modulo_int_def sgn_if)

lemma Math_round_div:
  assumes "0 < b"
  shows "Math_round (real_of_int a / real_of_int b) = (2 * a + b) div (2 * b)"
proof -
  have "real_of_int a / real_of_int b + 1 / 2 = real_of_int (2 * a + b) / real_of_int (2 * b)"
    using assms by (simp add: field_simps)
  then show ?thesis unfolding Math_round_def by (simp only: floor_divide_of_int_eq)
qed


section \<open>The average cycle length\<close>

lemma cycleCandidates_Cons2:
  "cycleCandidates (a # b # rest) =
     differenceInDays (startDate a) (startDate b) # cycleCandidates (b # rest)"
  by (simp add: cycleCandidates_def)

lemma cycleCandidates_short [simp]:
  "cycleCandidates [] = []" "cycleCandidates [a] = []"
  by (simp_all add: cycleCandidates_def)

lemma cycleLengthLoop_sum:
  "cycleLengthLoop logs (t, v) =
     (t + sum_list (survivingCycles logs), v + int (length (survivingCycles logs)))"
proof (induction logs "(t, v)" arbitrary: t v rule: cycleLengthLoop.induct)
  case (1 current "next" rest totalDays validCycles)
  then show ?case
    by (simp add: survivingCycles_def cycleCandidates_Cons2 plausibleCycle_def Let_def)
next
  case (2 a)
  then show ?case by (simp add: survivingCycles_def)
next
  case 3
  then show ?case by (simp add: survivingCycles_def)
qed

lemma short_no_candidates: "length logs < 2 \<Longrightarrow> survivingCycles logs = []"
  by (cases logs; cases "tl logs") (auto simp: survivingCycles_def cycleCandidates_def)

lemma calculateAverageCycleLength_eq:
  "calculateAverageCycleLength logs =
     (if survivingCycles logs = [] then 28
      else round (real_of_int (sum_list (survivingCycles logs))
                  / real (length (survivingCycles logs))))"
  by (auto simp: calculateAverageCycleLength_def cycleLengthLoop_sum short_no_candidates
      DEFAULT_CYCLE_LENGTH_def Math_round_def round_def)

lemma sum_list_bounds:
  fixes xs :: "int list"
  assumes "\<forall>x \<in> set xs. lo \<le> x \<and> x \<le> hi"
  shows "lo * int (length xs) \<le> sum_list xs \<and> sum_list xs \<le> hi * int (length xs)"
  using assms by (induction xs) (auto simp: algebra_simps)

lemma round_mean_bounds:
  fixes xs :: "int list"
  assumes "xs \<noteq> []" "\<forall>x \<in> set xs. lo \<le> x \<and> x \<le> hi"
  shows "lo \<le> round (real_of_int (sum_list xs) / real (length xs))"
    and "round (real_of_int (sum_list xs) / real (length xs)) \<le> hi"
proof -
  let ?n = "real (length xs)"
  have n: "0 < ?n" using assms(1) by simp
  from sum_list_bounds[OF assms(2)]
  have "real_of_int lo * ?n \<le> real_of_int (sum_list xs)"
    "real_of_int (sum_list xs) \<le> real_of_int hi * ?n"
    by (metis of_int_le_iff of_int_mult of_int_of_nat_eq)+
  then have "real_of_int lo \<le> real_of_int (sum_list xs) / ?n"
    "real_of_int (sum_list xs) / ?n \<le> real_of_int hi"
    using n by (simp_all add: pos_le_divide_eq pos_divide_le_eq)
  then show "lo \<le> round (real_of_int (sum_list xs) / real (length xs))"
    and "round (real_of_int (sum_list xs) / real (length xs)) \<le> hi"
    using round_mono[of "real_of_int lo" "real_of_int (sum_list xs) / ?n"]
      round_mono[of "real_of_int (sum_list xs) / ?n" "real_of_int hi"] by simp_all
qed

lemma calculateAverageCycleLength_bounds:
  "21 \<le> calculateAverageCycleLength logs \<and> calculateAverageCycleLength logs \<le> 35"
proof (cases "survivingCycles logs = []")
  case True
  then show ?thesis by (simp add: calculateAverageCycleLength_eq)
next
  case False
  have "\<forall>x \<in> set (survivingCycles logs). 21 \<le> x \<and> x \<le> 35"
    by (simp add: survivingCycles_def plausibleCycle_def)
  from round_mean_bounds[OF False this] False show ?thesis
    by (simp add: calculateAverageCycleLength_eq)
qed

lemma outlier_candidates: "cycleCandidates outlierLogs = [60, 29, 28]"
  by (simp add: cycleCandidates_def outlierLogs_def exampleLog_def date_eval)

lemma outlier_survivors: "survivingCycles outlierLogs = [29, 28]"
  by (simp add: survivingCycles_def outlier_candidates plausibleCycle_def)

lemma outlier_average: "calculateAverageCycleLength outlierLogs = 29"
  by (simp add: calculateAverageCycleLength_eq outlier_survivors round_def)

lemma scenario_cycle: "calculateAverageCycleLength scenarioLogs = 28"
  by (simp add: scenarioLogs_def exampleLog_def calculateAverageCycleLength_def date_eval
    Math_round_def DEFAULT_CYCLE_LENGTH_def)

lemma scenario_period: "calculateAveragePeriodLength scenarioLogs = 5"
  by (simp add: scenarioLogs_def exampleLog_def calculateAveragePeriodLength_def date_eval
    Math_round_def periodLengthStep_def)


section \<open>Default statistics\<close>

text \<open>
  C1, as the code has it. With fewer than two logs the average cycle length is the
  default of 28 days. With no log the average period length is the service's
  \<open>DEFAULT_PERIOD_LENGTH\<close>, which is 6 days.
\<close>

theorem C1_defaults:
  "(length logs < 2 \<longrightarrow> calculateAverageCycleLength logs = 28)
   \<and> calculateAverageCycleLength [] = 28
   \<and> calculateAveragePeriodLength [] = 6"
  by (simp add: calculateAverageCycleLength_def calculateAveragePeriodLength_def
      DEFAULT_CYCLE_LENGTH_def DEFAULT_PERIOD_LENGTH_def)

theorem C1_defaults_witness:
  "length [exampleLog (calendarDate 2024 1 1) (calendarDate 2024 1 5)] < 2
   \<and> calculateAverageCycleLength [exampleLog (calendarDate 2024 1 1) (calendarDate 2024 1 5)] = 28
   \<and> calculateAveragePeriodLength [] = 6"
  using C1_defaults [of "[exampleLog (calendarDate 2024 1 1) (calendarDate 2024 1 5)]"]
  by simp

text \<open>
  C1 as stated fails: for the empty log list the average period length is not 5 days.
\<close>

theorem C1_period_default_counterexample:
  "calculateAveragePeriodLength [] \<noteq> 5"
  by (simp add: calculateAveragePeriodLength_def DEFAULT_PERIOD_LENGTH_def)


section \<open>Outlier rejection\<close>

text \<open>
  C6. The candidate cycle lengths are the day differences between the start dates of
  adjacent logs (the service keeps its logs sorted, so adjacent logs are chronologically
  consecutive). A candidate outside [21, 35] does not enter the average at all: the
  average cycle length is the arithmetic mean of the surviving candidates, rounded to the
  nearest integer (at most one half away from the mean), and 28 when none survives. For
  logs whose candidates are 60, 29 and 28 the survivors are 29 and 28 and the average is
  29.
\<close>

theorem C6_outlier_rejection:
  "survivingCycles logs = filter (\<lambda>d. 21 \<le> d \<and> d \<le> 35) (cycleCandidates logs)
   \<and> calculateAverageCycleLength logs =
       (if survivingCycles logs = [] then 28
        else round (real_of_int (sum_list (survivingCycles logs))
                    / real (length (survivingCycles logs))))
   \<and> (survivingCycles logs \<noteq> [] \<longrightarrow>
        \<bar>real_of_int (calculateAverageCycleLength logs)
          - real_of_int (sum_list (survivingCycles logs)) / real (length (survivingCycles logs))\<bar>
        \<le> 1 / 2)
   \<and> cycleCandidates outlierLogs = [60, 29, 28]
   \<and> survivingCycles outlierLogs = [29, 28]
   \<and> calculateAverageCycleLength outlierLogs = 29"
proof -
  have "survivingCycles logs = filter (\<lambda>d. 21 \<le> d \<and> d \<le> 35) (cycleCandidates logs)"
    by (simp add: survivingCycles_def plausibleCycle_def[abs_def])
  moreover have "survivingCycles logs \<noteq> [] \<longrightarrow>
        \<bar>real_of_int (calculateAverageCycleLength logs)
          - real_of_int (sum_list (survivingCycles logs)) / real (length (survivingCycles logs))\<bar>
        \<le> 1 / 2"
  proof
    let ?m = "real_of_int (sum_list (survivingCycles logs)) / real (length (survivingCycles logs))"
    assume "survivingCycles logs \<noteq> []"
    then have eq: "calculateAverageCycleLength logs = round ?m"
      by (simp add: calculateAverageCycleLength_eq)
    show "\<bar>real_of_int (calculateAverageCycleLength logs) - ?m\<bar> \<le> 1 / 2"
      unfolding eq by (rule of_int_round_abs_le)
  qed
  ultimately show ?thesis
    using calculateAverageCycleLength_eq[of logs] outlier_candidates outlier_survivors
      outlier_average by simp
qed

theorem C6_outlier_rejection_witness:
  "survivingCycles outlierLogs \<noteq> []
   \<and> calculateAverageCycleLength outlierLogs = 29
   \<and> \<bar>real_of_int (calculateAverageCycleLength outlierLogs)
        - real_of_int (sum_list (survivingCycles outlierLogs))
          / real (length (survivingCycles outlierLogs))\<bar> \<le> 1 / 2"
proof -
  note t = C6_outlier_rejection [of outlierLogs]
  from t have ne: "survivingCycles outlierLogs \<noteq> []" by simp
  with t show ?thesis by blast
qed


section \<open>The sorted log list\<close>

lemma sortedNewestFirst_sort: "sortedNewestFirst (sortNewestFirst xs)"
proof -
  have "sorted (map (\<lambda>a. - startDate a) (sort_key (\<lambda>a. - startDate a) xs))"
    by (rule sorted_sort_key)
  then show ?thesis
    by (simp add: sortedNewestFirst_def sortNewestFirst_def sorted_map)
qed

lemma internalLogs_addPeriodLog:
  "internalLogs (addPeriodLog entry s) = sortNewestFirst (internalLogs s @ [entry])"
  by (simp add: internalLogs_def addPeriodLog_def Let_def)

lemma internalLogs_clearLogs: "internalLogs (clearLogs s) = []"
  by (simp add: internalLogs_def clearLogs_def)

lemma serviceInv_new: "serviceInv newService"
  by (simp add: serviceInv_def newService_def internalLogs_def sortedNewestFirst_def)

lemma serviceInv_call: "serviceInv s \<Longrightarrow> serviceInv (call s c)"
proof (cases c)
  case (AddPeriodLog entry)
  assume "serviceInv s"
  then have "periodLogs (addPeriodLog entry s) < nextRef (addPeriodLog entry s)"
    by (simp add: serviceInv_def addPeriodLog_def Let_def)
  then show ?thesis using AddPeriodLog
    by (simp add: serviceInv_def internalLogs_addPeriodLog sortedNewestFirst_sort)
next
  case ClearLogs
  have "periodLogs (clearLogs s) < nextRef (clearLogs s)"
    by (simp add: clearLogs_def)
  then show ?thesis using ClearLogs
    by (simp add: serviceInv_def internalLogs_clearLogs sortedNewestFirst_def)
next
  case GetPeriodLogs
  assume "serviceInv s"
  then show ?thesis using GetPeriodLogs
    by (simp add: serviceInv_def getPeriodLogs_def internalLogs_def)
qed

lemma serviceInv_calls: "serviceInv s \<Longrightarrow> serviceInv (foldl call s calls)"
  by (induction calls arbitrary: s) (simp_all add: serviceInv_call)

lemma getPeriodLogs_fresh:
  assumes "periodLogs s < nextRef s"
  shows "fst (getPeriodLogs s) \<noteq> periodLogs (snd (getPeriodLogs s))"
    and "fst (getPeriodLogs s) \<noteq> periodLogs s"
    and "arrays (snd (getPeriodLogs s)) (fst (getPeriodLogs s)) = internalLogs s"
    and "internalLogs (snd (getPeriodLogs s)) = internalLogs s"
    and "internalLogs (snd (getPeriodLogs s)
            \<lparr> arrays := (arrays (snd (getPeriodLogs s)))(fst (getPeriodLogs s) := written) \<rparr>)
         = internalLogs s"
  using assms by (simp_all add: getPeriodLogs_def internalLogs_def)

text \<open>
  C10. After \<open>addPeriodLog\<close>, from any state of the service, the internal list holds the
  former logs and the new one and is sorted by start date, newest first; after
  \<open>clearLogs\<close> it is empty, hence sorted. So the list is sorted after any sequence of
  calls on a new service. \<open>getPeriodLogs\<close> returns a reference other than the internal
  one, to an array with the content of the internal list; the internal list is not
  changed by the call, nor by a later write to the returned array.
\<close>

theorem C10_sorted_invariant:
  "sortedNewestFirst (internalLogs (addPeriodLog entry s))
   \<and> set (internalLogs (addPeriodLog entry s)) = insert entry (set (internalLogs s))
   \<and> length (internalLogs (addPeriodLog entry s)) = Suc (length (internalLogs s))
   \<and> sortedNewestFirst (internalLogs (clearLogs s))
   \<and> sortedNewestFirst (internalLogs (foldl call newService calls))
   \<and> (case getPeriodLogs (foldl call newService calls) of
        (copy, s') \<Rightarrow>
          copy \<noteq> periodLogs s'
          \<and> copy \<noteq> periodLogs (foldl call newService calls)
          \<and> arrays s' copy = internalLogs (foldl call newService calls)
          \<and> internalLogs s' = internalLogs (foldl call newService calls)
          \<and> internalLogs (s' \<lparr> arrays := (arrays s')(copy := written) \<rparr>)
              = internalLogs (foldl call newService calls))"
proof -
  let ?s = "foldl call newService calls"
  have inv: "serviceInv ?s" by (rule serviceInv_calls[OF serviceInv_new])
  then have lt: "periodLogs ?s < nextRef ?s" by (simp add: serviceInv_def)
  have a: "sortedNewestFirst (internalLogs (addPeriodLog entry s))"
    by (simp add: internalLogs_addPeriodLog sortedNewestFirst_sort)
  have a': "set (internalLogs (addPeriodLog entry s)) = insert entry (set (internalLogs s))"
    "length (internalLogs (addPeriodLog entry s)) = Suc (length (internalLogs s))"
    by (simp_all add: internalLogs_addPeriodLog sortNewestFirst_def)
  have b: "sortedNewestFirst (internalLogs (clearLogs s))"
    by (simp add: internalLogs_clearLogs sortedNewestFirst_def)
  have c: "sortedNewestFirst (internalLogs ?s)" using inv by (simp add: serviceInv_def)
  show ?thesis using a a' b c getPeriodLogs_fresh[OF lt]
    by (simp add: case_prod_beta)
qed


section \<open>The anchor of the projection\<close>

lemma nextPeriodStart_after:
  assumes "isAfter fromDate (startDate m)" and "0 < L"
  shows "nextPeriodStart m L fromDate =
           addDays fromDate (L - differenceInDays fromDate (startDate m) mod L)"
    and "nextPeriodStart m L fromDate > fromDate"
    and "0 \<le> differenceInDays fromDate (startDate m)"
proof -
  let ?d = "differenceInDays fromDate (startDate m)"
  from assms(1) have le: "startDate m \<le> fromDate" by (simp add: isAfter_def)
  then have d: "?d = (fromDate - startDate m) div msPerDay" by (rule differenceInDays_nonneg)
  then show d0: "0 \<le> ?d" using le msPerDay_pos by (simp add: pos_imp_zdiv_nonneg_iff)
  show eq: "nextPeriodStart m L fromDate = addDays fromDate (L - ?d mod L)"
    using assms d0 by (simp add: nextPeriodStart_def Let_def smod_nonneg)
  have "?d mod L < L" using assms(2) by simp
  then have "0 < (L - ?d mod L) * msPerDay" using msPerDay_pos by simp
  then show "nextPeriodStart m L fromDate > fromDate" by (simp add: eq addDays_def)
qed

lemma nextPeriodStart_same_time:
  assumes "isAfter fromDate (startDate m)" and "0 < L"
    and "fromDate mod msPerDay = startDate m mod msPerDay"
  shows "nextPeriodStart m L fromDate =
           addDays (startDate m) ((differenceInDays fromDate (startDate m) div L + 1) * L)"
    and "(fromDate < addDays (startDate m) (k * L))
           = (differenceInDays fromDate (startDate m) div L + 1 \<le> k)"
proof -
  let ?d = "differenceInDays fromDate (startDate m)"
  from assms(1) have le: "startDate m \<le> fromDate" by (simp add: isAfter_def)
  then have d: "?d = (fromDate - startDate m) div msPerDay" by (rule differenceInDays_nonneg)
  have "(fromDate - startDate m) mod msPerDay = 0"
    using assms(3) by (metis mod_diff_cong cancel_comm_monoid_add_class.diff_cancel mod_0)
  then have whole: "fromDate = startDate m + ?d * msPerDay"
    using d by (metis add.commute diff_add_cancel div_mult_mod_eq add.right_neutral)
  have split: "?d = ?d div L * L + ?d mod L" by simp
  have "L - ?d mod L + ?d = (?d div L + 1) * L"
    using split by (simp add: algebra_simps)
  then have "(L - ?d mod L) * msPerDay + ?d * msPerDay = (?d div L + 1) * L * msPerDay"
    by (metis distrib_right)
  then show "nextPeriodStart m L fromDate = addDays (startDate m) ((?d div L + 1) * L)"
    using nextPeriodStart_after(1)[OF assms(1,2)] whole by (simp add: addDays_def)
  have "(startDate m + ?d * msPerDay < startDate m + k * L * msPerDay)
          = (?d * msPerDay < k * L * msPerDay)" by simp
  with whole have "(fromDate < addDays (startDate m) (k * L)) = (?d * msPerDay < k * L * msPerDay)"
    unfolding addDays_def by metis
  also have "\<dots> = (?d < k * L)" using msPerDay_pos by simp
  also have "\<dots> = (?d div L < k)"
    using assms(2) by (rule less_mult_iff_div_less)
  also have "\<dots> = (?d div L + 1 \<le> k)" by auto
  finally show "(fromDate < addDays (startDate m) (k * L)) = (?d div L + 1 \<le> k)" .
qed

lemma nextPeriodStart_not_after:
  "\<not> isAfter fromDate (startDate m) \<Longrightarrow> nextPeriodStart m L fromDate = startDate m"
  by (simp add: nextPeriodStart_def)

lemma scenario_anchor:
  "nextPeriodStart (hd scenarioLogs) (calculateAverageCycleLength scenarioLogs)
     (calendarDate 2024 2 10) = calendarDate 2024 2 26"
  unfolding scenario_cycle
  by (simp add: scenarioLogs_def exampleLog_def nextPeriodStart_def date_eval)

lemma scenario_first_projected:
  "find (\<lambda>d. prediction d = Some True) (predictNextCycle scenarioLogs (calendarDate 2024 2 10))
     = Some \<lparr> date = calendarDate 2024 2 26, phase = period, intensity = i_heavy,
              prediction = Some True \<rparr>"
  by code_simp

text \<open>
  C3, as the code has it. \<open>L\<close> is the average cycle length and \<open>d\<close> the number of full
  days from the most recent log's start to \<open>fromDate\<close>. When \<open>fromDate\<close> is after that
  start, the first projected period starts \<open>L - d mod L\<close> days after \<open>fromDate\<close>, which is
  strictly after \<open>fromDate\<close>; when moreover \<open>fromDate\<close> has the time of day of that start
  (as two calendar dates have), this is the start advanced by \<open>d div L + 1\<close> whole cycle
  lengths, the first multiple that lies strictly after \<open>fromDate\<close>. When \<open>fromDate\<close> is
  not after the start, the anchor is the start itself. With the logs 2024-01-01..05 and
  2024-01-29..02-02, predicting from 2024-02-10 gives 2024-02-26, and that day is the
  first projected day of the result.
\<close>

theorem C3_next_period_anchor:
  assumes "logs = mostRecent # rest"
    and "L = calculateAverageCycleLength logs"
    and "d = differenceInDays fromDate (startDate mostRecent)"
  shows "(isAfter fromDate (startDate mostRecent) \<longrightarrow>
            nextPeriodStart mostRecent L fromDate = addDays fromDate (L - d mod L)
            \<and> fromDate < nextPeriodStart mostRecent L fromDate)
         \<and> (isAfter fromDate (startDate mostRecent)
              \<and> fromDate mod msPerDay = startDate mostRecent mod msPerDay \<longrightarrow>
            nextPeriodStart mostRecent L fromDate
              = addDays (startDate mostRecent) ((d div L + 1) * L)
            \<and> (\<forall>k. (fromDate < addDays (startDate mostRecent) (k * L)) = (d div L + 1 \<le> k)))
         \<and> (\<not> isAfter fromDate (startDate mostRecent) \<longrightarrow>
            nextPeriodStart mostRecent L fromDate = startDate mostRecent)
         \<and> nextPeriodStart (hd scenarioLogs) (calculateAverageCycleLength scenarioLogs)
              (calendarDate 2024 2 10) = calendarDate 2024 2 26
         \<and> find (\<lambda>d. prediction d = Some True)
                (predictNextCycle scenarioLogs (calendarDate 2024 2 10))
              = Some \<lparr> date = calendarDate 2024 2 26, phase = period, intensity = i_heavy,
                       prediction = Some True \<rparr>"
proof -
  have L: "0 < L" using calculateAverageCycleLength_bounds[of logs] assms(2) by simp
  have 1: "isAfter fromDate (startDate mostRecent) \<longrightarrow>
            nextPeriodStart mostRecent L fromDate = addDays fromDate (L - d mod L)
            \<and> fromDate < nextPeriodStart mostRecent L fromDate"
    using nextPeriodStart_after(1,2)[OF _ L] assms(3) by blast
  have 2: "isAfter fromDate (startDate mostRecent)
              \<and> fromDate mod msPerDay = startDate mostRecent mod msPerDay \<longrightarrow>
            nextPeriodStart mostRecent L fromDate
              = addDays (startDate mostRecent) ((d div L + 1) * L)
            \<and> (\<forall>k. (fromDate < addDays (startDate mostRecent) (k * L)) = (d div L + 1 \<le> k))"
    using nextPeriodStart_same_time[OF _ L] assms(3) by blast
  have 3: "\<not> isAfter fromDate (startDate mostRecent) \<longrightarrow>
            nextPeriodStart mostRecent L fromDate = startDate mostRecent"
    by (simp add: nextPeriodStart_not_after)
  show ?thesis using 1 2 3 scenario_anchor scenario_first_projected by blast
qed

theorem C3_next_period_anchor_witness:
  "scenarioLogs = hd scenarioLogs # tl scenarioLogs
   \<and> isAfter (calendarDate 2024 2 10) (startDate (hd scenarioLogs))
   \<and> calendarDate 2024 2 10 mod msPerDay = startDate (hd scenarioLogs) mod msPerDay
   \<and> calculateAverageCycleLength scenarioLogs = 28
   \<and> differenceInDays (calendarDate 2024 2 10) (startDate (hd scenarioLogs)) = 12
   \<and> nextPeriodStart (hd scenarioLogs) 28 (calendarDate 2024 2 10)
       = addDays (startDate (hd scenarioLogs)) ((12 div 28 + 1) * 28)
   \<and> addDays (startDate (hd scenarioLogs)) ((12 div 28 + 1) * 28) = calendarDate 2024 2 26"
proof -
  have l: "scenarioLogs = hd scenarioLogs # tl scenarioLogs"
    by (simp add: scenarioLogs_def)
  have a: "isAfter (calendarDate 2024 2 10) (startDate (hd scenarioLogs))"
    and t: "calendarDate 2024 2 10 mod msPerDay = startDate (hd scenarioLogs) mod msPerDay"
    and d: "differenceInDays (calendarDate 2024 2 10) (startDate (hd scenarioLogs)) = 12"
    and e: "addDays (startDate (hd scenarioLogs)) ((12 div 28 + 1) * 28) = calendarDate 2024 2 26"
    by (simp_all add: scenarioLogs_def exampleLog_def date_eval)
  from C3_next_period_anchor [OF l scenario_cycle[symmetric] d[symmetric]] a t
  have "nextPeriodStart (hd scenarioLogs) 28 (calendarDate 2024 2 10)
       = addDays (startDate (hd scenarioLogs)) ((12 div 28 + 1) * 28)" by blast
  then show ?thesis using l a t d e scenario_cycle by blast
qed

text \<open>
  C3 as stated fails when \<open>fromDate\<close> falls on a whole multiple of the cycle length after
  the most recent start. With the same two logs and \<open>fromDate\<close> 2024-02-26, the start
  2024-01-29 advanced by one cycle of 28 days is 2024-02-26, which is on \<open>fromDate\<close>;
  the code answers 2024-03-25.
\<close>

theorem C3_on_multiple_counterexample:
  "calculateAverageCycleLength scenarioLogs = 28
   \<and> isAfter (calendarDate 2024 2 26) (startDate (hd scenarioLogs))
   \<and> addDays (startDate (hd scenarioLogs)) (1 * 28) = calendarDate 2024 2 26
   \<and> nextPeriodStart (hd scenarioLogs) (calculateAverageCycleLength scenarioLogs)
        (calendarDate 2024 2 26) = calendarDate 2024 3 25
   \<and> calendarDate 2024 3 25 \<noteq> calendarDate 2024 2 26"
  unfolding scenario_cycle
  by (simp add: scenarioLogs_def exampleLog_def nextPeriodStart_def date_eval)


section \<open>Logged days in the projection\<close>


















section \<open>The summary prediction\<close>

lemma analyzeCycles_short:
  "length cycles < 3 \<Longrightarrow>
     analyzeCycles cycles = Inl (Error ''Not enough cycle data for analysis'')"
  by (simp add: analyzeCycles_def MIN_CYCLES_FOR_PREDICTION_def)

lemma analyzeCycles_long:
  "3 \<le> length cycles \<Longrightarrow> \<exists>a. analyzeCycles cycles = Inr a"
  by (simp add: analyzeCycles_def MIN_CYCLES_FOR_PREDICTION_def Let_def)

text \<open>
  C2, as the code has it. For a log list with fewer than 3 logs, in particular with
  exactly one, \<open>predictNextCycle\<close> throws the error "Not enough cycle data for analysis".
  For a list of at least 3 logs it returns a result, and the result's \<open>basedOnCycles\<close>
  is the number of logs.
\<close>

theorem C2_predictNextCycle_threshold:
  "(length cycles < 3 \<longrightarrow>
      predictNextCycle_summary now cycles = Inl (Error ''Not enough cycle data for analysis''))
   \<and> (3 \<le> length cycles \<longrightarrow>
      (\<exists>p. predictNextCycle_summary now cycles = Inr p \<and> basedOnCycles p = length cycles))"
proof (intro conjI impI)
  assume "length cycles < 3"
  then show "predictNextCycle_summary now cycles
               = Inl (Error ''Not enough cycle data for analysis'')"
    by (simp add: predictNextCycle_summary_def analyzeCycles_short)
next
  assume len: "3 \<le> length cycles"
  then obtain a where a: "analyzeCycles cycles = Inr a" using analyzeCycles_long by blast
  from len obtain lastCycle rest where c: "cycles = lastCycle # rest" by (cases cycles) auto
  show "\<exists>p. predictNextCycle_summary now cycles = Inr p \<and> basedOnCycles p = length cycles"
    unfolding predictNextCycle_summary_def a c[symmetric]
    by (simp add: c Let_def)
qed

theorem C2_predictNextCycle_threshold_witness:
  "length [sampleCycle (calendarDate 2024 3 1) 28] < 3
   \<and> predictNextCycle_summary (calendarDate 2024 4 1) [sampleCycle (calendarDate 2024 3 1) 28]
       = Inl (Error ''Not enough cycle data for analysis'')
   \<and> 3 \<le> length steadyCycles
   \<and> (\<exists>p. predictNextCycle_summary (calendarDate 2024 4 1) steadyCycles = Inr p
          \<and> basedOnCycles p = length steadyCycles)"
proof -
  have short: "length [sampleCycle (calendarDate 2024 3 1) 28] < 3" by simp
  have long: "3 \<le> length steadyCycles" by (simp add: steadyCycles_def)
  note t1 = C2_predictNextCycle_threshold
              [of "[sampleCycle (calendarDate 2024 3 1) 28]" "calendarDate 2024 4 1"]
  note t2 = C2_predictNextCycle_threshold [of steadyCycles "calendarDate 2024 4 1"]
  from t1 short have a: "predictNextCycle_summary (calendarDate 2024 4 1)
       [sampleCycle (calendarDate 2024 3 1) 28]
       = Inl (Error ''Not enough cycle data for analysis'')" by (rule conjunct1[THEN mp])
  from t2 long have b: "\<exists>p. predictNextCycle_summary (calendarDate 2024 4 1) steadyCycles = Inr p
          \<and> basedOnCycles p = length steadyCycles" by (rule conjunct2[THEN mp])
  show ?thesis by (intro conjI short a long b)
qed

text \<open>
  C2 as stated fails: on a list of exactly one log \<open>predictNextCycle\<close> throws, and
  returns no result.
\<close>

theorem C2_single_log_counterexample:
  "predictNextCycle_summary (calendarDate 2024 4 1) [sampleCycle (calendarDate 2024 3 1) 28]
     = Inl (Error ''Not enough cycle data for analysis'')"
  by (simp add: predictNextCycle_summary_def analyzeCycles_def MIN_CYCLES_FOR_PREDICTION_def)


section \<open>The regularity score\<close>

lemma regularityOf_simps:
  "regularityOf (Num v) = Num (regularityFormula v)"
  "regularityOf PInf = Num 0"
  "regularityOf NInf = Num 100"
  "regularityOf NaN = NaN"
  by (auto simp: regularityOf_def regularityFormula_def jsub_def Math_max_def Math_min_def
      max_def min_def)

lemma regularityFormula_high: "0.3 \<le> v \<Longrightarrow> regularityFormula v = 0"
  by (simp add: regularityFormula_def max_def min_def)

lemma regularityFormula_zero: "regularityFormula 0 = 100"
  by (simp add: regularityFormula_def)

lemma regularityOf_high: "jle (Num 0.3) vc \<Longrightarrow> regularityOf vc = Num 0"
  by (cases vc) (simp_all add: regularityOf_simps regularityFormula_high)

lemma foldl_jadd_Num:
  "foldl (\<lambda>sum len. jadd sum len) (Num acc) (map Num xs) = Num (acc + sum_list xs)"
  by (induction xs arbitrary: acc) (simp_all add: add.assoc)

lemma foldl_variance_Num:
  "foldl (\<lambda>sum len. let diff = jsub len (Num \<mu>) in jadd sum (jmul diff diff))
         (Num acc) (map Num xs)
   = Num (acc + sum_list (map (\<lambda>x. (x - \<mu>)\<^sup>2) xs))"
  by (induction xs arbitrary: acc) (simp_all add: jsub_def Let_def power2_eq_square add.assoc)

lemma analyzeCycles_fields:
  assumes "3 \<le> length cycles"
  shows "\<exists>a. analyzeCycles cycles = Inr a
           \<and> regularityScore a = regularityOf (jdiv (standardDeviation a) (mean a))
           \<and> mean a = jdiv (foldl (\<lambda>sum len. jadd sum len) (Num 0) (cycleLengths cycles))
                            (Num (real (length (cycleLengths cycles))))
           \<and> standardDeviation a =
               Math_sqrt (jdiv (foldl (\<lambda>sum len. let diff = jsub len (mean a)
                                                   in jadd sum (jmul diff diff))
                                      (Num 0) (cycleLengths cycles))
                               (Num (real (length (cycleLengths cycles)))))"
  using assms
  by (simp add: analyzeCycles_def MIN_CYCLES_FOR_PREDICTION_def Let_def regularityOf_def)

lemma analyzeCycles_finite:
  assumes "analyzeCycles cycles = Inr a" "3 \<le> length cycles"
    and "cycleLengths cycles = map Num xs" "xs \<noteq> []" "arithmeticMean xs \<noteq> 0"
  shows "mean a = Num (arithmeticMean xs)"
    and "standardDeviation a = Num (populationStdDev xs)"
    and "regularityScore a = Num (regularityFormula (populationStdDev xs / arithmeticMean xs))"
proof -
  from analyzeCycles_fields[OF assms(2)] assms(1)
  have sc: "regularityScore a = regularityOf (jdiv (standardDeviation a) (mean a))"
    and m: "mean a = jdiv (foldl (\<lambda>sum len. jadd sum len) (Num 0) (cycleLengths cycles))
                            (Num (real (length (cycleLengths cycles))))"
    and sd: "standardDeviation a =
               Math_sqrt (jdiv (foldl (\<lambda>sum len. let diff = jsub len (mean a)
                                                   in jadd sum (jmul diff diff))
                                      (Num 0) (cycleLengths cycles))
                               (Num (real (length (cycleLengths cycles)))))"
    by auto
  have n: "real (length xs) \<noteq> 0" using assms(4) by simp
  show mean: "mean a = Num (arithmeticMean xs)"
    using n by (simp add: m assms(3) foldl_jadd_Num arithmeticMean_def)
  have nonneg: "0 \<le> sum_list (map (\<lambda>x. (x - arithmeticMean xs)\<^sup>2) xs) / real (length xs)"
    by (intro divide_nonneg_nonneg sum_list_nonneg) auto
  show dev: "standardDeviation a = Num (populationStdDev xs)"
    using n nonneg
    by (simp add: sd mean assms(3) foldl_variance_Num populationStdDev_def)
  show "regularityScore a = Num (regularityFormula (populationStdDev xs / arithmeticMean xs))"
    using assms(5) by (simp add: sc mean dev regularityOf_simps)
qed

lemma steady_analysis:
  "analyzeCycles steadyCycles =
     Inr \<lparr> mean = Num 28, standardDeviation = Num 0, regularityScore = Num 100,
           isRegular = True \<rparr>"
  by (simp add: analyzeCycles_def MIN_CYCLES_FOR_PREDICTION_def steadyCycles_def sampleCycle_def
      cycleLengths_def List.map_filter_def lengthOrNone_def Let_def jsub_def Math_max_def
      Math_min_def REGULARITY_THRESHOLD_def)

lemma erratic_analysis:
  "analyzeCycles erraticCycles =
     Inr \<lparr> mean = Num 2, standardDeviation = Num 1, regularityScore = Num 0,
           isRegular = False \<rparr>"
  by (simp add: analyzeCycles_def MIN_CYCLES_FOR_PREDICTION_def erraticCycles_def sampleCycle_def
      cycleLengths_def List.map_filter_def lengthOrNone_def Let_def jsub_def Math_max_def
      Math_min_def REGULARITY_THRESHOLD_def)

text \<open>
  C7. For every list of at least 3 cycles \<open>analyzeCycles\<close> returns an analysis, and its
  regularity score is max(0, min(100, 100 * (1 - v / 0.3))) of the variation coefficient
  \<open>v\<close>, the standard deviation divided by the mean. A variation coefficient of at least
  0.3 gives the score 0 and a variation coefficient of 0 gives the score 100. The mean
  and the standard deviation are those of the lengths of the cycles that have an end
  date and a length: when these lengths are the finite numbers \<open>xs\<close>, not empty and of
  mean other than 0, the analysis holds their arithmetic mean and their (population)
  standard deviation, and the score is the formula at their quotient. (Without such a
  length the mean is \<open>NaN\<close>, and so are the variation coefficient and the score.)
\<close>

theorem C7_regularity_score:
  assumes "3 \<le> length cycles"
  shows "\<exists>a. analyzeCycles cycles = Inr a
           \<and> regularityScore a = regularityOf (jdiv (standardDeviation a) (mean a))
           \<and> (\<forall>v. jdiv (standardDeviation a) (mean a) = Num v \<longrightarrow>
                  regularityScore a = Num (max 0 (min 100 (100 * (1 - v / 0.3)))))
           \<and> (jle (Num 0.3) (jdiv (standardDeviation a) (mean a)) \<longrightarrow> regularityScore a = Num 0)
           \<and> (jdiv (standardDeviation a) (mean a) = Num 0 \<longrightarrow> regularityScore a = Num 100)
           \<and> (\<forall>xs. cycleLengths cycles = map Num xs \<and> xs \<noteq> [] \<and> arithmeticMean xs \<noteq> 0 \<longrightarrow>
                  mean a = Num (arithmeticMean xs)
                  \<and> standardDeviation a = Num (populationStdDev xs)
                  \<and> regularityScore a =
                      Num (max 0 (min 100
                             (100 * (1 - (populationStdDev xs / arithmeticMean xs) / 0.3)))))"
proof -
  from analyzeCycles_fields[OF assms] obtain a where a: "analyzeCycles cycles = Inr a"
    and sc: "regularityScore a = regularityOf (jdiv (standardDeviation a) (mean a))"
    by blast
  have 1: "\<forall>v. jdiv (standardDeviation a) (mean a) = Num v \<longrightarrow>
                  regularityScore a = Num (max 0 (min 100 (100 * (1 - v / 0.3))))"
    by (simp add: sc regularityOf_simps regularityFormula_def)
  have 2: "jle (Num 0.3) (jdiv (standardDeviation a) (mean a)) \<longrightarrow> regularityScore a = Num 0"
    by (simp add: sc regularityOf_high)
  have 3: "jdiv (standardDeviation a) (mean a) = Num 0 \<longrightarrow> regularityScore a = Num 100"
    by (simp add: sc regularityOf_simps regularityFormula_zero)
  have 4: "\<forall>xs. cycleLengths cycles = map Num xs \<and> xs \<noteq> [] \<and> arithmeticMean xs \<noteq> 0 \<longrightarrow>
                  mean a = Num (arithmeticMean xs)
                  \<and> standardDeviation a = Num (populationStdDev xs)
                  \<and> regularityScore a =
                      Num (max 0 (min 100
                             (100 * (1 - (populationStdDev xs / arithmeticMean xs) / 0.3))))"
    using analyzeCycles_finite[OF a assms] by (simp add: regularityFormula_def)
  show ?thesis
    by (rule exI[of _ a]) (rule conjI[OF a conjI[OF sc conjI[OF 1 conjI[OF 2 conjI[OF 3 4]]]]])
qed

theorem C7_regularity_score_witness:
  "3 \<le> length steadyCycles
   \<and> (\<exists>a. analyzeCycles steadyCycles = Inr a
         \<and> jdiv (standardDeviation a) (mean a) = Num 0 \<and> regularityScore a = Num 100)
   \<and> 3 \<le> length erraticCycles
   \<and> (\<exists>a. analyzeCycles erraticCycles = Inr a
         \<and> jle (Num 0.3) (jdiv (standardDeviation a) (mean a)) \<and> regularityScore a = Num 0)"
proof -
  have l1: "3 \<le> length steadyCycles" by (simp add: steadyCycles_def)
  have l2: "3 \<le> length erraticCycles" by (simp add: erraticCycles_def)
  from C7_regularity_score[OF l1] obtain a where a: "analyzeCycles steadyCycles = Inr a"
    and z: "jdiv (standardDeviation a) (mean a) = Num 0 \<longrightarrow> regularityScore a = Num 100"
    by blast
  from a have vc: "jdiv (standardDeviation a) (mean a) = Num 0"
    by (auto simp: steady_analysis)
  from C7_regularity_score[OF l2] obtain b where b: "analyzeCycles erraticCycles = Inr b"
    and h: "jle (Num 0.3) (jdiv (standardDeviation b) (mean b)) \<longrightarrow> regularityScore b = Num 0"
    by blast
  from b have vb: "jle (Num 0.3) (jdiv (standardDeviation b) (mean b))"
    by (auto simp: erratic_analysis)
  have A: "\<exists>a. analyzeCycles steadyCycles = Inr a
         \<and> jdiv (standardDeviation a) (mean a) = Num 0 \<and> regularityScore a = Num 100"
    using a vc z by blast
  have B: "\<exists>a. analyzeCycles erraticCycles = Inr a
         \<and> jle (Num 0.3) (jdiv (standardDeviation a) (mean a)) \<and> regularityScore a = Num 0"
    using b vb h by blast
  show ?thesis by (intro conjI l1 A l2 B)
qed


section \<open>The prediction confidence\<close>

lemma calculatePredictionConfidence_eq:
  "calculatePredictionConfidence a n =
     clampRound (jmul (jmul (regularityScore a) (Num (countBlend n)))
                      (variationFactor (jdiv (standardDeviation a) (mean a))))"
  by (simp add: calculatePredictionConfidence_def Let_def clampRound_def variationFactor_def
      countBlend_def MIN_CYCLES_FOR_PREDICTION_def jsub_def Math_min_def min_def)

lemma countBlend_pos: "0 < countBlend n"
proof -
  have "- 1 / 3 \<le> (real n - 3) / 9" by simp
  then have "- 1 / 3 \<le> min 1 ((real n - 3) / 9)" by simp
  then show ?thesis unfolding countBlend_def by linarith
qed

lemma countBlend_mono: "n \<le> m \<Longrightarrow> countBlend n \<le> countBlend m"
proof -
  assume "n \<le> m"
  then have "(real n - 3) / 9 \<le> (real m - 3) / 9" by simp
  then have "min 1 ((real n - 3) / 9) \<le> min 1 ((real m - 3) / 9)"
    by (rule min.mono[OF order_refl])
  then show ?thesis unfolding countBlend_def by linarith
qed

lemma clampRound_Num:
  "clampRound (Num x) = Num (of_int (Math_round (max 0 (min 100 x))))"
  by (auto simp: clampRound_def Math_max_def Math_min_def max_def min_def)

lemma clampRound_mono:
  "x \<le> y \<Longrightarrow> Math_round (max 0 (min 100 x)) \<le> Math_round (max 0 (min 100 y))"
  unfolding Math_round_def by (intro floor_mono) (auto simp: max_def min_def)

lemma confidence_step:
  assumes "0 < g" "g \<le> h"
  shows "(\<exists>x y. clampRound (jmul (jmul R (Num g)) V) = Num x
               \<and> clampRound (jmul (jmul R (Num h)) V) = Num y \<and> x \<le> y)
         \<or> (clampRound (jmul (jmul R (Num g)) V) = NaN
             \<and> clampRound (jmul (jmul R (Num h)) V) = NaN)"
proof -
  have h: "0 < h" using assms by simp
  consider (nan) "V = NaN" | (inf) "V = PInf" | (ninf) "V = NInf" | (num) v where "V = Num v"
    by (cases V) auto
  then show ?thesis
  proof cases
    case nan
    then show ?thesis by (cases R) (simp_all add: clampRound_def Math_max_def Math_min_def)
  next
    case inf
    show ?thesis
    proof (cases R)
      case (Num r)
      have "(r * g = 0) = (r = 0)" "(r * h = 0) = (r = 0)"
        "(0 < r * g) = (0 < r)" "(0 < r * h) = (0 < r)"
        using assms(1) h by (simp_all add: zero_less_mult_iff)
      then show ?thesis using Num inf
        by (simp add: clampRound_def Math_max_def Math_min_def Math_round_def)
    qed (use inf assms(1) h in
          \<open>simp_all add: clampRound_def Math_max_def Math_min_def Math_round_def\<close>)
  next
    case ninf
    show ?thesis
    proof (cases R)
      case (Num r)
      have "(r * g = 0) = (r = 0)" "(r * h = 0) = (r = 0)"
        "(0 < r * g) = (0 < r)" "(0 < r * h) = (0 < r)"
        using assms(1) h by (simp_all add: zero_less_mult_iff)
      then show ?thesis using Num ninf
        by (simp add: clampRound_def Math_max_def Math_min_def Math_round_def)
    qed (use ninf assms(1) h in
          \<open>simp_all add: clampRound_def Math_max_def Math_min_def Math_round_def\<close>)
  next
    case (num v)
    show ?thesis
    proof (cases R)
      case (Num r)
      have "clampRound (jmul (jmul R (Num g)) V)
              = Num (of_int (Math_round (max 0 (min 100 (r * g * v)))))"
        "clampRound (jmul (jmul R (Num h)) V)
              = Num (of_int (Math_round (max 0 (min 100 (r * h * v)))))"
        using Num num by (simp_all add: clampRound_Num)
      moreover have "Math_round (max 0 (min 100 (r * g * v)))
                       \<le> Math_round (max 0 (min 100 (r * h * v)))"
      proof (cases "0 \<le> r * v")
        case True
        then have "g * (r * v) \<le> h * (r * v)" using assms(2) by (rule mult_right_mono[rotated])
        then have "r * g * v \<le> r * h * v" by (simp add: mult.commute mult.left_commute)
        then show ?thesis by (rule clampRound_mono)
      next
        case False
        then have neg: "r * v < 0" by simp
        have "g * (r * v) < 0" "h * (r * v) < 0"
          using neg assms(1) h by (simp_all add: mult_pos_neg)
        then have "r * g * v < 0" "r * h * v < 0"
          by (simp_all add: mult.commute mult.left_commute)
        then have "max 0 (min 100 (r * g * v)) = 0" "max 0 (min 100 (r * h * v)) = 0"
          by (simp_all add: max_def min_def)
        then show ?thesis by simp
      qed
      ultimately show ?thesis by simp
    qed (use num assms(1) h in
          \<open>auto simp add: clampRound_def Math_max_def Math_min_def Math_round_def\<close>)
  qed
qed

lemma sample_confidence:
  "calculatePredictionConfidence sampleAnalysis 3 = Num 55"
  "calculatePredictionConfidence sampleAnalysis 12 = Num 79"
  by (simp_all add: calculatePredictionConfidence_def sampleAnalysis_def Let_def
      MIN_CYCLES_FOR_PREDICTION_def jsub_def Math_min_def Math_max_def Math_round_def)

text \<open>
  C8. Take two analyses with the same regularity score and the same quotient of standard
  deviation and mean, and two cycle counts \<open>n \<le> m\<close> (in particular from 3 up to 12). Then
  the confidence at \<open>m\<close> is not less than the confidence at \<open>n\<close>: either both are numbers
  and the first is at most the second, or both are \<open>NaN\<close> (which the regularity score or
  the quotient then is the cause of, not the count).
\<close>

theorem C8_confidence_monotone:
  assumes "regularityScore a = regularityScore b"
    and "jdiv (standardDeviation a) (mean a) = jdiv (standardDeviation b) (mean b)"
    and "n \<le> m"
  shows "((\<exists>x y. calculatePredictionConfidence a n = Num x
                \<and> calculatePredictionConfidence b m = Num y \<and> x \<le> y)
          \<or> (calculatePredictionConfidence a n = NaN \<and> calculatePredictionConfidence b m = NaN))
         \<and> \<not> jlt (calculatePredictionConfidence b m) (calculatePredictionConfidence a n)"
proof -
  have "(\<exists>x y. calculatePredictionConfidence a n = Num x
                \<and> calculatePredictionConfidence b m = Num y \<and> x \<le> y)
          \<or> (calculatePredictionConfidence a n = NaN \<and> calculatePredictionConfidence b m = NaN)"
    unfolding calculatePredictionConfidence_eq assms(1) assms(2)
    by (rule confidence_step[OF countBlend_pos countBlend_mono[OF assms(3)]])
  then show ?thesis by auto
qed

theorem C8_confidence_monotone_witness:
  "(3::nat) \<le> 12
   \<and> calculatePredictionConfidence sampleAnalysis 3 = Num 55
   \<and> calculatePredictionConfidence sampleAnalysis 12 = Num 79
   \<and> \<not> jlt (calculatePredictionConfidence sampleAnalysis 12)
            (calculatePredictionConfidence sampleAnalysis 3)"
proof -
  have le: "(3::nat) \<le> 12" by simp
  note t = C8_confidence_monotone [of sampleAnalysis sampleAnalysis 3 12, OF refl refl le]
  show ?thesis by (intro conjI le sample_confidence conjunct2[OF t])
qed


section \<open>Fertility windows\<close>

lemma predictNextOvulation_Cons:
  "predictNextOvulation (lastCycle # rest) stats =
     Inr \<lparr> expectedDate = addDays (cycle_startDate lastCycle) (averageOvulationDay stats),
           confidence = confidenceLevel stats,
           fertilityWindows =
             [\<lparr> window_start =
                  subDays (addDays (cycle_startDate lastCycle) (averageOvulationDay stats)) 3,
                window_end = addDays (cycle_startDate lastCycle) (averageOvulationDay stats),
                window_type = HIGHLY_FERTILE, probability = Num 0.3 \<rparr>,
              \<lparr> window_start = addDays (cycle_startDate lastCycle) (averageOvulationDay stats),
                window_end =
                  addDays (addDays (cycle_startDate lastCycle) (averageOvulationDay stats)) 2,
                window_type = FERTILE, probability = Num 0.2 \<rparr>,
              \<lparr> window_start =
                  subDays (addDays (cycle_startDate lastCycle) (averageOvulationDay stats)) 5,
                window_end =
                  subDays (addDays (cycle_startDate lastCycle) (averageOvulationDay stats)) 3,
                window_type = LESS_FERTILE, probability = Num 0.1 \<rparr>] \<rparr>"
  by (simp add: predictNextOvulation_def Let_def setDatePlus_def addDays_def subDays_def
      HIGHLY_FERTILE_WINDOW_def msPerDay_def)

lemma march_prediction:
  "predictNextOvulation marchCycles marchStats = Inr marchPrediction"
  by (simp add: predictNextOvulation_def marchCycles_def marchStats_def marchPrediction_def
      marchWindows_def Let_def setDatePlus_def HIGHLY_FERTILE_WINDOW_def calendarDate_def
      daysFromCivil_def msPerDay_def)

lemmas march_eval = windowTypeAt_def marchPrediction_def marchWindows_def insideWindow_def
  midday_def calendarDate_def daysFromCivil_def msPerDay_def

text \<open>
  C4, evaluated on the code. A date falls in the first window, in the order highly
  fertile, fertile, less fertile, whose start is not after it and whose end is not before
  it. For the ovulation date 2024-03-15, at midday of each day this is the window the
  claim names: less fertile on 2024-03-10 and 2024-03-11, highly fertile on 2024-03-12 to
  2024-03-14, fertile on 2024-03-15 and 2024-03-16, and none on 2024-03-09 and
  2024-03-17. At the instants where two windows meet the code answers otherwise: at
  2024-03-15 00:00, the ovulation date itself, the window is the highly fertile one and
  the probability 0.3 times the confidence, and at 2024-03-17 00:00 the window is the
  fertile one.
\<close>

theorem C4_boundary_instants:
  "predictNextOvulation marchCycles marchStats = Inr marchPrediction
   \<and> expectedDate marchPrediction = calendarDate 2024 3 15
   \<and> windowTypeAt (calendarDate 2024 3 15) marchPrediction = Some HIGHLY_FERTILE
   \<and> calculateDailyProbability (calendarDate 2024 3 15) marchPrediction = Num (0.3 * 0.8)
   \<and> windowTypeAt (calendarDate 2024 3 17) marchPrediction = Some FERTILE
   \<and> windowTypeAt (midday (calendarDate 2024 3 9)) marchPrediction = None
   \<and> windowTypeAt (midday (calendarDate 2024 3 10)) marchPrediction = Some LESS_FERTILE
   \<and> windowTypeAt (midday (calendarDate 2024 3 11)) marchPrediction = Some LESS_FERTILE
   \<and> windowTypeAt (midday (calendarDate 2024 3 12)) marchPrediction = Some HIGHLY_FERTILE
   \<and> windowTypeAt (midday (calendarDate 2024 3 13)) marchPrediction = Some HIGHLY_FERTILE
   \<and> windowTypeAt (midday (calendarDate 2024 3 14)) marchPrediction = Some HIGHLY_FERTILE
   \<and> windowTypeAt (midday (calendarDate 2024 3 15)) marchPrediction = Some FERTILE
   \<and> windowTypeAt (midday (calendarDate 2024 3 16)) marchPrediction = Some FERTILE
   \<and> windowTypeAt (midday (calendarDate 2024 3 17)) marchPrediction = None"
  using march_prediction
  by (simp add: march_eval calculateDailyProbability_def)


section \<open>Phases inside the windows\<close>

lemma determineFertilityPhase_eq:
  "determineFertilityPhase d p =
     (let daysDiff = (2 * (d - expectedDate p) + 86400000) div 172800000
      in if daysDiff = 0 then OVULATION
         else if daysDiff < 0 \<and> daysDiff \<ge> -5 then FOLLICULAR
         else if daysDiff > 0 \<and> daysDiff \<le> 14 then LUTEAL
         else FOLLICULAR)"
proof -
  have "Math_round (real_of_int (d - expectedDate p) / real_of_int (1000 * 60 * 60 * 24))
        = (2 * (d - expectedDate p) + 86400000) div 172800000"
    using Math_round_div[of "1000 * 60 * 60 * 24" "d - expectedDate p"] by simp
  then show ?thesis unfolding determineFertilityPhase_def by simp
qed

lemma phase_by_offset:
  assumes "expectedDate p - 5 * 86400000 \<le> d" "d \<le> expectedDate p + 2 * 86400000"
  shows "determineFertilityPhase d p =
           (if d - expectedDate p < - 43200000 then FOLLICULAR
            else if d - expectedDate p < 43200000 then OVULATION
            else LUTEAL)"
proof -
  define z where "z = d - expectedDate p"
  define K where "K = (2 * z + 86400000) div 172800000"
  have z: "- 432000000 \<le> z" "z \<le> 172800000" using assms by (simp_all add: z_def)
  have div_less: "(K < k) = (2 * z + 86400000 < k * 172800000)" for k
    unfolding K_def using less_mult_iff_div_less[of 172800000 "2 * z + 86400000" k] by simp
  have "\<not> K < - 5" using z(1) by (simp add: div_less)
  then have lo: "- 5 \<le> K" by simp
  have "K < 3" using z(2) by (simp add: div_less)
  then have hi: "K \<le> 2" by simp
  have "(2 * z + 86400000 < 0) = (z < - 43200000)" by linarith
  then have a: "(K < 0) = (z < - 43200000)" by (simp add: div_less)
  have "(K < 1) = (z < 43200000)" by (simp add: div_less)
  then have b: "(K \<le> 0) = (z < 43200000)" by linarith
  have "determineFertilityPhase d p =
     (if K = 0 then OVULATION
      else if K < 0 \<and> K \<ge> -5 then FOLLICULAR
      else if K > 0 \<and> K \<le> 14 then LUTEAL
      else FOLLICULAR)"
    unfolding determineFertilityPhase_eq K_def z_def Let_def by simp
  also have "\<dots> = (if z < - 43200000 then FOLLICULAR
            else if z < 43200000 then OVULATION
            else LUTEAL)"
    using lo hi a b by auto
  finally show ?thesis unfolding z_def .
qed

lemma windows_span:
  assumes "predictNextOvulation cycles stats = Inr p"
    and "w \<in> set (fertilityWindows p)" and "insideWindow d w"
  shows "expectedDate p - 5 * 86400000 \<le> d \<and> d \<le> expectedDate p + 2 * 86400000
         \<and> (window_type w \<noteq> FERTILE \<longrightarrow> d \<le> expectedDate p)"
proof (cases cycles)
  case Nil
  then show ?thesis using assms(1) by (simp add: predictNextOvulation_def)
next
  case (Cons lastCycle rest)
  from assms(1) have p: "Inr p = predictNextOvulation (lastCycle # rest) stats"
    unfolding Cons by simp
  show ?thesis using assms(2,3) p[unfolded predictNextOvulation_Cons]
    by (auto simp: insideWindow_def addDays_def subDays_def msPerDay_def)
qed

text \<open>
  C5, as the code has it. For every ovulation prediction and every date inside one of
  its windows: when the date is less than half a day after the expected ovulation date,
  the phase reported for it is FOLLICULAR or OVULATION; this is so for every date inside
  the highly-fertile or the less-fertile window. When the date is half a day or more
  after the expected ovulation date, as the later part of the fertile window is, the
  phase reported is LUTEAL.
\<close>

theorem C5_phase_inside_windows:
  assumes "predictNextOvulation cycles stats = Inr p"
    and "w \<in> set (fertilityWindows p)" and "insideWindow d w"
  shows "(d - expectedDate p < 43200000 \<longrightarrow>
            determineFertilityPhase d p = FOLLICULAR \<or> determineFertilityPhase d p = OVULATION)
         \<and> (43200000 \<le> d - expectedDate p \<longrightarrow> determineFertilityPhase d p = LUTEAL)
         \<and> (window_type w \<noteq> FERTILE \<longrightarrow>
            determineFertilityPhase d p = FOLLICULAR \<or> determineFertilityPhase d p = OVULATION)"
proof -
  from windows_span[OF assms]
  have span: "expectedDate p - 5 * 86400000 \<le> d" "d \<le> expectedDate p + 2 * 86400000"
    and early: "window_type w \<noteq> FERTILE \<longrightarrow> d \<le> expectedDate p" by auto
  show ?thesis using phase_by_offset[OF span] early by auto
qed

theorem C5_phase_inside_windows_witness:
  "predictNextOvulation marchCycles marchStats = Inr marchPrediction
   \<and> hd marchWindows \<in> set (fertilityWindows marchPrediction)
   \<and> insideWindow (calendarDate 2024 3 13) (hd marchWindows)
   \<and> calendarDate 2024 3 13 - expectedDate marchPrediction < 43200000
   \<and> window_type (hd marchWindows) \<noteq> FERTILE
   \<and> (determineFertilityPhase (calendarDate 2024 3 13) marchPrediction = FOLLICULAR
       \<or> determineFertilityPhase (calendarDate 2024 3 13) marchPrediction = OVULATION)"
proof -
  have w: "hd marchWindows \<in> set (fertilityWindows marchPrediction)"
    by (simp add: marchPrediction_def marchWindows_def)
  have i: "insideWindow (calendarDate 2024 3 13) (hd marchWindows)"
    and e: "calendarDate 2024 3 13 - expectedDate marchPrediction < 43200000"
    and ty: "window_type (hd marchWindows) \<noteq> FERTILE"
    by (simp_all add: marchPrediction_def marchWindows_def insideWindow_def calendarDate_def
        daysFromCivil_def msPerDay_def)
  note t = C5_phase_inside_windows [OF march_prediction w i]
  from t e have ph: "determineFertilityPhase (calendarDate 2024 3 13) marchPrediction = FOLLICULAR
       \<or> determineFertilityPhase (calendarDate 2024 3 13) marchPrediction = OVULATION"
    by (rule conjunct1[THEN mp])
  show ?thesis by (intro conjI march_prediction w i e ty ph)
qed

text \<open>
  C5 as stated fails: for the ovulation date 2024-03-15, the date 2024-03-16 is inside
  the fertile window and the phase reported for it is LUTEAL.
\<close>

theorem C5_luteal_inside_fertile_window_counterexample:
  "predictNextOvulation marchCycles marchStats = Inr marchPrediction
   \<and> window_type (marchWindows ! 1) = FERTILE
   \<and> marchWindows ! 1 \<in> set (fertilityWindows marchPrediction)
   \<and> insideWindow (calendarDate 2024 3 16) (marchWindows ! 1)
   \<and> determineFertilityPhase (calendarDate 2024 3 16) marchPrediction = LUTEAL"
  using march_prediction
  by (simp add: marchPrediction_def marchWindows_def insideWindow_def determineFertilityPhase_def
      Math_round_def calendarDate_def daysFromCivil_def msPerDay_def)

end
